theory Spec2Isabelle
  imports Main "HOL-Library.Word"
begin

section \<open>The C11 threads layer of libnx (nx/source/runtime/c11-threads.c)\<close>

text \<open>
  The file wraps the kernel's mutex, recursive mutex, condition variable, thread and
  sleep primitives in the interface of \<^verbatim>\<open><threads.h>\<close>. Every function is
  embedded as a function on an explicit world: the list of the calls made to the
  collaborators so far, and the environment that answers them.
\<close>

subsection \<open>Types and constants of the headers\<close>

type_synonym u64 = "64 word"
type_synonym Result = "32 word"

text \<open>
  The name of a kernel primitive's storage (the address the C code passes to the kernel).
  What the storage holds belongs to the kernel primitives and is not modelled.
\<close>

type_synonym kobj = nat

text \<open>A function pointer: the address of the code.\<close>

type_synonym fptr = nat

text \<open>
  Modelled from the spec: the macro \<^verbatim>\<open>U64_MAX\<close> is declared in a header that
  is not among the sources. The spec gives it as the largest 64-bit count of nanoseconds,
  which stands for "no deadline".
\<close>

definition U64_MAX :: u64 where
  "U64_MAX = - 1"

text \<open>
  Modelled from the spec: the macros \<^verbatim>\<open>R_SUCCEEDED\<close> and \<^verbatim>\<open>R_FAILED\<close> are
  declared in a header that is not among the sources. A kernel call "reports failure"
  (spec, sections 4 and 7) through its 32-bit result code; the code zero is success and
  every other code is a failure.
\<close>

definition R_SUCCEEDED :: "Result \<Rightarrow> bool" where
  "R_SUCCEEDED res = (res = 0)"

text \<open>
  Modelled from the spec: see \<open>R_SUCCEEDED\<close>; the macro is its complement.
\<close>

definition R_FAILED :: "Result \<Rightarrow> bool" where
  "R_FAILED res = (res \<noteq> 0)"

text \<open>
  Modelled from the spec: the result enumerators of \<^verbatim>\<open><threads.h>\<close>, a header that
  is not among the sources. The spec's taxonomy (section 7) keeps success, a failed
  immediate acquisition, an error, an exhausted memory and a timeout apart, as the five
  enumerators do.
\<close>

datatype thrd_code = thrd_success | thrd_busy | thrd_error | thrd_nomem | thrd_timedout

text \<open>
  Modelled from the spec: the mutex kinds of \<^verbatim>\<open><threads.h>\<close>, a header that is not
  among the sources. The spec (section 3) names two different kinds, plain and recursive.
  The tag is a C \<^verbatim>\<open>int\<close>, so it can hold other numbers too; of the two numbers only
  their being different is used.
\<close>

definition mtx_plain :: int where
  "mtx_plain = 1"

text \<open>
  Modelled from the spec: see \<open>mtx_plain\<close>.
\<close>

definition mtx_recursive :: int where
  "mtx_recursive = 2"

text \<open>
  \<^verbatim>\<open>struct timespec\<close>. On the 64-bit target both fields are 64 bits wide; the
  conversion below reads them as unsigned and wraps.
\<close>

record timespec =
  tv_sec :: "64 word"
  tv_nsec :: "64 word"

text \<open>
  \<^verbatim>\<open>mtx_t\<close>: the kind tag and the anonymous union of the two kernel primitives, which
  share their storage.
\<close>

record mtx_t =
  type :: int
  storage :: kobj

text \<open>\<^verbatim>\<open>cnd_t\<close> is the kernel's condition variable; a pointer to it is its name.\<close>

type_synonym cnd_t = kobj

text \<open>\<^verbatim>\<open>__thrd_t\<close>: the kernel thread object and the slot of the return code.\<close>

record thrd_obj =
  thr :: kobj
  rc :: int

text \<open>\<^verbatim>\<open>thrd_t\<close> is a pointer to a \<^verbatim>\<open>__thrd_t\<close> that \<^verbatim>\<open>malloc\<close> returned.\<close>

type_synonym thrd_t = nat

subsection \<open>The collaborators\<close>

text \<open>
  The calls the layer makes to its collaborators: the kernel primitives, named as in the
  source, the callback of \<^verbatim>\<open>call_once\<close>, and the stores to the status of a once
  flag, which the other callers of the flag read.
\<close>

datatype event =
    CondvarInit kobj
  | CondvarWakeOne kobj
  | CondvarWakeAll kobj
  | CondvarWaitTimeout kobj kobj u64
  | MutexInit kobj
  | MutexLock kobj
  | MutexTryLock kobj
  | MutexUnlock kobj
  | RmutexInit kobj
  | RmutexLock kobj
  | RmutexTryLock kobj
  | RmutexUnlock kobj
  | SvcSleepThread u64
  | ThreadWaitForExit kobj
  | ThreadClose kobj
  | Invoke fptr
  | Store_status int

text \<open>
  The world of one thread: the calls it has made, oldest first, the environment, and the
  thread control records on the C heap. The environment is any function of the calls made
  so far (the last one being the call that is answered): the result code of a kernel call,
  whether a try-lock acquired, and the status that the other threads have left in a once
  flag when a wait on it returns.
\<close>

record world =
  calls :: "event list"
  answer :: "event list \<Rightarrow> Result"
  granted :: "event list \<Rightarrow> bool"
  peer_status :: "event list \<Rightarrow> int"
  heap :: "thrd_t \<rightharpoonup> thrd_obj"

text \<open>
  Modelled from the spec: the kernel primitives are external collaborators (spec,
  section 6) and their code is not among the sources. A call that returns nothing is
  recorded.
\<close>

definition tell :: "event \<Rightarrow> world \<Rightarrow> world" where
  "tell e w = w\<lparr>calls := calls w @ [e]\<rparr>"

text \<open>
  Modelled from the spec: a kernel call that returns a result code is recorded, and the
  environment gives the code.
\<close>

definition ask :: "event \<Rightarrow> world \<Rightarrow> Result \<times> world" where
  "ask e w = (answer w (calls w @ [e]), tell e w)"

text \<open>
  Modelled from the spec: a try-lock of the kernel is recorded, and the environment says
  whether the lock was acquired at once.
\<close>

definition probe :: "event \<Rightarrow> world \<Rightarrow> bool \<times> world" where
  "probe e w = (granted w (calls w @ [e]), tell e w)"

text \<open>
  Modelled from the spec: \<^verbatim>\<open>free\<close> of the C library gives the allocation back; the
  handle is invalid afterwards (spec, section 4.5).
\<close>

definition free :: "thrd_t \<Rightarrow> world \<Rightarrow> world" where
  "free p w = w\<lparr>heap := (heap w)(p := None)\<rparr>"

subsection \<open>Time conversion\<close>

text \<open>
  \<^verbatim>\<open>(u64)ts->tv_sec * 1000000000 + ts->tv_nsec\<close>, in 64-bit unsigned arithmetic.
\<close>

definition impl_timespec2nsec :: "timespec \<Rightarrow> u64" where
  "impl_timespec2nsec ts = tv_sec ts * 1000000000 + tv_nsec ts"

subsection \<open>Condition variables\<close>

text \<open>A pointer that may be null is an option; \<open>None\<close> is the null pointer.\<close>

definition cnd_broadcast :: "cnd_t option \<Rightarrow> world \<Rightarrow> thrd_code \<times> world" where
  "cnd_broadcast cond w =
     (if cond = None then (thrd_error, w)
      else case ask (CondvarWakeAll (the cond)) w of
        (res, w') \<Rightarrow> (if R_SUCCEEDED res then thrd_success else thrd_error, w'))"

definition cnd_init :: "cnd_t option \<Rightarrow> world \<Rightarrow> thrd_code \<times> world" where
  "cnd_init cond w =
     (if cond = None then (thrd_error, w)
      else (thrd_success, tell (CondvarInit (the cond)) w))"

definition cnd_signal :: "cnd_t option \<Rightarrow> world \<Rightarrow> thrd_code \<times> world" where
  "cnd_signal cond w =
     (if cond = None then (thrd_error, w)
      else case ask (CondvarWakeOne (the cond)) w of
        (res, w') \<Rightarrow> (if R_SUCCEEDED res then thrd_success else thrd_error, w'))"

text \<open>The static function \<^verbatim>\<open>__cnd_timedwait\<close>.\<close>

definition static_cnd_timedwait ::
  "cnd_t option \<Rightarrow> mtx_t option \<Rightarrow> u64 \<Rightarrow> world \<Rightarrow> thrd_code \<times> world" where
  "static_cnd_timedwait cond mtx timeout w =
     (if cond = None \<or> mtx = None \<or> type (the mtx) \<noteq> mtx_plain then (thrd_error, w)
      else case ask (CondvarWaitTimeout (the cond) (storage (the mtx)) timeout) w of
        (res, w') \<Rightarrow> (if R_SUCCEEDED res then thrd_success else thrd_error, w'))"

definition cnd_timedwait ::
  "cnd_t option \<Rightarrow> mtx_t option \<Rightarrow> timespec option \<Rightarrow> world \<Rightarrow> thrd_code \<times> world" where
  "cnd_timedwait cond mtx abs_time w =
     (if abs_time = None then (thrd_error, w)
      else static_cnd_timedwait cond mtx (impl_timespec2nsec (the abs_time)) w)"

definition cnd_wait :: "cnd_t option \<Rightarrow> mtx_t option \<Rightarrow> world \<Rightarrow> thrd_code \<times> world" where
  "cnd_wait cond mtx w = static_cnd_timedwait cond mtx U64_MAX w"

subsection \<open>Mutexes\<close>

text \<open>
  A \<^verbatim>\<open>switch\<close> on the kind has the two cases and no default: any other tag falls
  through it. \<^verbatim>\<open>mtx_init\<close> writes the tag through the pointer, so it returns the
  mutex too.
\<close>

definition mtx_init ::
  "mtx_t option \<Rightarrow> int \<Rightarrow> world \<Rightarrow> (thrd_code \<times> mtx_t option) \<times> world" where
  "mtx_init mtx ty w =
     (if mtx = None \<or> (ty \<noteq> mtx_plain \<and> ty \<noteq> mtx_recursive) then ((thrd_error, mtx), w)
      else let m = (the mtx)\<lparr>type := ty\<rparr> in
        ((thrd_success, Some m),
         if ty = mtx_plain then tell (MutexInit (storage m)) w
         else if ty = mtx_recursive then tell (RmutexInit (storage m)) w
         else w))"

definition mtx_lock :: "mtx_t option \<Rightarrow> world \<Rightarrow> thrd_code \<times> world" where
  "mtx_lock mtx w =
     (if mtx = None then (thrd_error, w)
      else (thrd_success,
         if type (the mtx) = mtx_plain then tell (MutexLock (storage (the mtx))) w
         else if type (the mtx) = mtx_recursive then tell (RmutexLock (storage (the mtx))) w
         else w))"

definition mtx_trylock :: "mtx_t option \<Rightarrow> world \<Rightarrow> thrd_code \<times> world" where
  "mtx_trylock mtx w =
     (if mtx = None then (thrd_error, w)
      else case
         (if type (the mtx) = mtx_plain then probe (MutexTryLock (storage (the mtx))) w
          else if type (the mtx) = mtx_recursive then probe (RmutexTryLock (storage (the mtx))) w
          else (False, w)) of
        (res, w') \<Rightarrow> (if res then thrd_success else thrd_error, w'))"

definition mtx_unlock :: "mtx_t option \<Rightarrow> world \<Rightarrow> thrd_code \<times> world" where
  "mtx_unlock mtx w =
     (if mtx = None then (thrd_error, w)
      else (thrd_success,
         if type (the mtx) = mtx_plain then tell (MutexUnlock (storage (the mtx))) w
         else if type (the mtx) = mtx_recursive then tell (RmutexUnlock (storage (the mtx))) w
         else w))"

subsection \<open>The once guard\<close>

record once_flag =
  status :: int
  mutex :: mtx_t
  cond :: cnd_t

text \<open>
  The wait loop of \<^verbatim>\<open>call_once\<close> may run forever, so it takes fuel: one unit for
  each wait. \<open>Blocked\<close> is a run that is still in the loop when the fuel is used up,
  with the flag and the world it has reached. After a wait the status is read from the
  memory again, where the other callers of the flag may have stored a new one.
\<close>

datatype 'a run = Returned 'a | Blocked 'a

fun outcome :: "'a run \<Rightarrow> 'a" where
  "outcome (Returned x) = x"
| "outcome (Blocked x) = x"

fun wait_while_running :: "nat \<Rightarrow> once_flag \<Rightarrow> world \<Rightarrow> (once_flag \<times> world) run" where
  "wait_while_running 0 flag w =
     (if status flag = 1 then Blocked (flag, w) else Returned (flag, w))"
| "wait_while_running (Suc n) flag w =
     (if status flag = 1 then
        (case cnd_wait (Some (cond flag)) (Some (mutex flag)) w of
          (r, w') \<Rightarrow> wait_while_running n (flag\<lparr>status := peer_status w' (calls w')\<rparr>) w')
      else Returned (flag, w))"

definition call_once :: "nat \<Rightarrow> once_flag \<Rightarrow> fptr \<Rightarrow> world \<Rightarrow> (once_flag \<times> world) run" where
  "call_once n flag func w =
     (let w1 = snd (mtx_lock (Some (mutex flag)) w) in
      if status flag = 0 then
        let flag1 = flag\<lparr>status := 1\<rparr>;
            w2 = tell (Store_status 1) w1;
            w3 = snd (mtx_unlock (Some (mutex flag1)) w2);
            w4 = tell (Invoke func) w3;
            w5 = snd (mtx_lock (Some (mutex flag1)) w4);
            flag2 = flag1\<lparr>status := 2\<rparr>;
            w6 = tell (Store_status 2) w5;
            w7 = snd (cnd_broadcast (Some (cond flag2)) w6)
        in Returned (flag2, snd (mtx_unlock (Some (mutex flag2)) w7))
      else
        (case wait_while_running n flag w1 of
          Returned (flag', w') \<Rightarrow> Returned (flag', snd (mtx_unlock (Some (mutex flag')) w'))
        | Blocked x \<Rightarrow> Blocked x))"

subsection \<open>Threads\<close>

text \<open>
  \<^verbatim>\<open>thrd_join\<close> dereferences the handle without a guard; on a handle that is not
  allocated the C code has no defined behaviour, which is \<open>None\<close> here. The code
  stores through \<^verbatim>\<open>res\<close> when it is not null, so the function returns what
  \<^verbatim>\<open>res\<close> points to as well.
\<close>

definition thrd_join ::
  "thrd_t \<Rightarrow> int option \<Rightarrow> world \<Rightarrow> ((thrd_code \<times> int option) \<times> world) option" where
  "thrd_join t res w =
     (case heap w t of
        None \<Rightarrow> None
      | Some obj \<Rightarrow>
          (case ask (ThreadWaitForExit (thr obj)) w of
            (r1, w1) \<Rightarrow>
              if R_FAILED r1 then Some ((thrd_error, res), w1)
              else
                let res' = (if res \<noteq> None then Some (rc obj) else res) in
                (case ask (ThreadClose (thr obj)) w1 of
                  (r2, w2) \<Rightarrow>
                    Some ((if R_SUCCEEDED r2 then thrd_success else thrd_error, res'),
                          free t w2))))"

text \<open>
  \<^verbatim>\<open>thrd_sleep\<close> returns a plain \<^verbatim>\<open>int\<close>, and what \<^verbatim>\<open>remaining\<close> points to.
\<close>

definition thrd_sleep ::
  "timespec option \<Rightarrow> timespec option \<Rightarrow> world \<Rightarrow> (int \<times> timespec option) \<times> world" where
  "thrd_sleep duration remaining w =
     (if duration = None then ((- 1, remaining), w)
      else
        let w1 = tell (SvcSleepThread (impl_timespec2nsec (the duration))) w in
        ((0, if remaining \<noteq> None
             then Some ((the remaining)\<lparr>tv_nsec := 0, tv_sec := 0\<rparr>)
             else remaining),
         w1))"

subsection \<open>Reading a list of calls\<close>

text \<open>
  The change one call makes to the number of times the caller holds the kernel primitive
  stored at \<open>k\<close>: a lock adds one, an unlock takes one away.
\<close>

definition acquires :: "kobj \<Rightarrow> event \<Rightarrow> int" where
  "acquires k e =
     (if e = MutexLock k \<or> e = RmutexLock k then 1
      else if e = MutexUnlock k \<or> e = RmutexUnlock k then - 1
      else 0)"

text \<open>
  Every callback in the list is invoked while the caller holds the primitive at \<open>k\<close>
  no time at all; \<open>h\<close> is the number of times it is held when the list starts.
\<close>

fun unlocked_calls :: "kobj \<Rightarrow> int \<Rightarrow> event list \<Rightarrow> bool" where
  "unlocked_calls k h [] = True"
| "unlocked_calls k h (e # es) =
     ((case e of Invoke f \<Rightarrow> h = 0 | _ \<Rightarrow> True) \<and> unlocked_calls k (h + acquires k e) es)"

text \<open>
  Every store to a status and every broadcast in the list is made while the caller holds
  the primitive at \<open>k\<close> exactly once.
\<close>

fun locked_stores :: "kobj \<Rightarrow> int \<Rightarrow> event list \<Rightarrow> bool" where
  "locked_stores k h [] = True"
| "locked_stores k h (e # es) =
     ((case e of Store_status v \<Rightarrow> h = 1 | CondvarWakeAll c \<Rightarrow> h = 1 | _ \<Rightarrow> True)
      \<and> locked_stores k (h + acquires k e) es)"

text \<open>The callbacks, status stores and broadcasts of a list, in their order.\<close>

definition steps :: "event list \<Rightarrow> event list" where
  "steps es = filter (\<lambda>e. case e of Invoke f \<Rightarrow> True | Store_status v \<Rightarrow> True
                              | CondvarWakeAll c \<Rightarrow> True | _ \<Rightarrow> False) es"

text \<open>The values stored to a status, in their order.\<close>

definition stores :: "event list \<Rightarrow> int list" where
  "stores es = concat (map (\<lambda>e. case e of Store_status v \<Rightarrow> [v] | _ \<Rightarrow> []) es)"

text \<open>A list of status values in which every value follows the one before it on the path 0, 1, 2.\<close>

fun forward :: "int list \<Rightarrow> bool" where
  "forward (a # b # xs) = ((a = 0 \<and> b = 1 \<or> a = 1 \<and> b = 2) \<and> forward (b # xs))"
| "forward xs = True"

definition is_wait :: "event \<Rightarrow> bool" where
  "is_wait e = (case e of CondvarWaitTimeout c m t \<Rightarrow> True | _ \<Rightarrow> False)"

subsection \<open>Some worlds\<close>

text \<open>
  A world with no call made yet, in which every kernel call succeeds, every try-lock
  acquires, and a waiter on a once flag finds it done.
\<close>

definition calm :: world where
  "calm = \<lparr>calls = [], answer = (\<lambda>h. 0), granted = (\<lambda>h. True),
            peer_status = (\<lambda>h. 2), heap = Map.empty\<rparr>"

text \<open>
  The kernel reports a wait whose deadline passed by the result code 0xEA01 (module 1,
  description 117), and an invalid handle by 0xE401 (description 114).
\<close>

definition timed_out :: world where
  "timed_out = calm\<lparr>answer := (\<lambda>h. 0xEA01)\<rparr>"

definition failing :: world where
  "failing = calm\<lparr>answer := (\<lambda>h. 0xE401)\<rparr>"

text \<open>A world in which another thread holds every lock that is tried.\<close>

definition contended :: world where
  "contended = calm\<lparr>granted := (\<lambda>h. False)\<rparr>"

text \<open>
  A world with one thread handle, at address 8, whose thread left the return code 42;
  waiting for its exit succeeds and closing its kernel object fails.
\<close>

definition close_fails :: world where
  "close_fails = calm\<lparr>answer := (\<lambda>h. case last h of ThreadClose k \<Rightarrow> 0xE401 | _ \<Rightarrow> 0),
                      heap := [8 \<mapsto> \<lparr>thr = 3, rc = 42\<rparr>]\<rparr>"

section \<open>Properties\<close>

subsection \<open>Calls are only ever added\<close>

lemma calls_tell [simp]: "calls (tell e w) = calls w @ [e]"
  by (simp add: tell_def)

lemma tell_neq [simp]: "tell e w \<noteq> w"
proof
  assume "tell e w = w"
  then have "calls (tell e w) = calls w" by simp
  then show False by simp
qed

subsection \<open>Condition variables\<close>

text \<open>
  C4. For every condition variable and mutex, the untimed wait \<^verbatim>\<open>cnd_wait\<close>
  returns what the timed wait \<^verbatim>\<open>__cnd_timedwait\<close> returns with the timeout
  \<^verbatim>\<open>U64_MAX\<close>, and leaves the same world; \<^verbatim>\<open>U64_MAX\<close> is the largest 64-bit
  number, \<open>2 ^ 64 - 1\<close>.
\<close>

theorem cnd_wait_is_timedwait_forever:
  "cnd_wait c mtx w = static_cnd_timedwait c mtx U64_MAX w \<and> unat U64_MAX = 2 ^ 64 - 1"
  by (simp add: cnd_wait_def U64_MAX_def unsigned_minus_1_eq_mask mask_eq_exp_minus_1)

text \<open>
  C3. The timed wait returns the error without a call to the kernel exactly when the
  condition variable is null, the mutex is null, or the kind of the mutex is not plain.
  So a wait with a recursive mutex is always rejected, and a wait with a condition
  variable and a plain mutex always reaches the kernel's wait, once.
\<close>

theorem timedwait_rejects_iff:
  "((fst (static_cnd_timedwait c mtx timeout w) = thrd_error
       \<and> calls (snd (static_cnd_timedwait c mtx timeout w)) = calls w)
      \<longleftrightarrow> c = None \<or> (case mtx of None \<Rightarrow> True | Some m' \<Rightarrow> type m' \<noteq> mtx_plain))
   \<and> (type m = mtx_recursive \<longrightarrow> static_cnd_timedwait c (Some m) timeout w = (thrd_error, w))
   \<and> (type m = mtx_plain \<longrightarrow>
        calls (snd (static_cnd_timedwait (Some k) (Some m) timeout w)) =
          calls w @ [CondvarWaitTimeout k (storage m) timeout])"
  by (auto simp: static_cnd_timedwait_def ask_def mtx_plain_def mtx_recursive_def
           split: option.splits prod.splits)

text \<open>
  A wait on the condition variable 1 with a recursive mutex is rejected, and the same wait
  with a plain mutex calls the kernel.
\<close>

theorem timedwait_rejects_iff_witness:
  "static_cnd_timedwait (Some 1) (Some \<lparr>type = 2, storage = 5\<rparr>) 9 calm = (thrd_error, calm)
   \<and> calls (snd (static_cnd_timedwait (Some 1) (Some \<lparr>type = 1, storage = 5\<rparr>) 9 calm)) =
       [CondvarWaitTimeout 1 5 9]"
  using timedwait_rejects_iff [of "Some 1" "Some \<lparr>type = 2, storage = 5\<rparr>" 9 calm
      "\<lparr>type = 2, storage = 5\<rparr>" 1]
    timedwait_rejects_iff [of "Some 1" "Some \<lparr>type = 1, storage = 5\<rparr>" 9 calm
      "\<lparr>type = 1, storage = 5\<rparr>" 1]
  by (simp add: mtx_plain_def mtx_recursive_def calm_def)

text \<open>
  C1, as the code has it. For every timed wait (\<^verbatim>\<open>__cnd_timedwait\<close> and
  \<^verbatim>\<open>cnd_timedwait\<close>) on a condition variable and a plain mutex, the result is
  \<^verbatim>\<open>thrd_success\<close> when the kernel's wait succeeds and \<^verbatim>\<open>thrd_error\<close> for
  every failing result code of the kernel's wait. The kernel reports an elapsed deadline
  by a failing code, so a timeout is told from success and not from a failure of the
  kernel primitive.
\<close>

theorem timedwait_result:
  assumes "type m = mtx_plain"
  shows "fst (static_cnd_timedwait (Some c) (Some m) t w) =
           (if R_SUCCEEDED (answer w (calls w @ [CondvarWaitTimeout c (storage m) t]))
            then thrd_success else thrd_error)
       \<and> fst (cnd_timedwait (Some c) (Some m) (Some ts) w) =
           (if R_SUCCEEDED
                 (answer w (calls w @ [CondvarWaitTimeout c (storage m) (impl_timespec2nsec ts)]))
            then thrd_success else thrd_error)"
  using assms by (simp add: cnd_timedwait_def static_cnd_timedwait_def ask_def)

theorem timedwait_result_witness:
  "fst (static_cnd_timedwait (Some 1) (Some \<lparr>type = 1, storage = 2\<rparr>) 5 timed_out) = thrd_error
   \<and> fst (cnd_timedwait (Some 1) (Some \<lparr>type = 1, storage = 2\<rparr>)
          (Some \<lparr>tv_sec = 0, tv_nsec = 5\<rparr>) calm) = thrd_success"
  using timedwait_result [of "\<lparr>type = 1, storage = 2\<rparr>" 1 5 timed_out]
    timedwait_result [of "\<lparr>type = 1, storage = 2\<rparr>" 1 5 calm "\<lparr>tv_sec = 0, tv_nsec = 5\<rparr>"]
  by (simp add: mtx_plain_def timed_out_def calm_def R_SUCCEEDED_def)

text \<open>
  C1 as the spec states it fails: a wait whose deadline elapses returns
  \<^verbatim>\<open>thrd_error\<close>, the value that a wait returns when the kernel primitive fails.
\<close>

theorem timedwait_timeout_counterexample:
  "fst (cnd_timedwait (Some 1) (Some \<lparr>type = mtx_plain, storage = 2\<rparr>)
          (Some \<lparr>tv_sec = 0, tv_nsec = 5\<rparr>) timed_out) = thrd_error
   \<and> fst (cnd_timedwait (Some 1) (Some \<lparr>type = mtx_plain, storage = 2\<rparr>)
          (Some \<lparr>tv_sec = 0, tv_nsec = 5\<rparr>) failing) = thrd_error"
  by (simp add: cnd_timedwait_def static_cnd_timedwait_def ask_def timed_out_def failing_def
        calm_def R_SUCCEEDED_def)

subsection \<open>Mutexes\<close>

text \<open>
  C7. On a mutex that is not null, \<^verbatim>\<open>mtx_init\<close> returns the error exactly when the
  kind asked for is neither plain nor recursive, and then it changes nothing. Otherwise it
  returns success, the tag of the mutex is the kind, and it has made one call to the
  kernel: the initialisation of the plain mutex for the plain kind, of the recursive mutex
  for the recursive kind.
\<close>

theorem mtx_init_result:
  "(fst (fst (mtx_init (Some m) ty w)) = thrd_error \<longleftrightarrow> ty \<noteq> mtx_plain \<and> ty \<noteq> mtx_recursive)
   \<and> (ty \<noteq> mtx_plain \<and> ty \<noteq> mtx_recursive \<longrightarrow>
        mtx_init (Some m) ty w = ((thrd_error, Some m), w))
   \<and> (ty = mtx_plain \<or> ty = mtx_recursive \<longrightarrow>
        fst (mtx_init (Some m) ty w) = (thrd_success, Some (m\<lparr>type := ty\<rparr>))
        \<and> calls (snd (mtx_init (Some m) ty w)) =
            calls w @ [if ty = mtx_plain then MutexInit (storage m) else RmutexInit (storage m)])"
  by (auto simp: mtx_init_def mtx_plain_def mtx_recursive_def Let_def)

theorem mtx_init_result_witness:
  "mtx_init (Some \<lparr>type = 0, storage = 4\<rparr>) 7 calm
     = ((thrd_error, Some \<lparr>type = 0, storage = 4\<rparr>), calm)
   \<and> fst (mtx_init (Some \<lparr>type = 0, storage = 4\<rparr>) 2 calm)
     = (thrd_success, Some \<lparr>type = 2, storage = 4\<rparr>)
   \<and> calls (snd (mtx_init (Some \<lparr>type = 0, storage = 4\<rparr>) 2 calm)) = [RmutexInit 4]
   \<and> calls (snd (mtx_init (Some \<lparr>type = 0, storage = 4\<rparr>) 1 calm)) = [MutexInit 4]"
  using mtx_init_result [of "\<lparr>type = 0, storage = 4\<rparr>" 7 calm]
    mtx_init_result [of "\<lparr>type = 0, storage = 4\<rparr>" 2 calm]
    mtx_init_result [of "\<lparr>type = 0, storage = 4\<rparr>" 1 calm]
  by (simp add: mtx_plain_def mtx_recursive_def calm_def)

text \<open>
  C2, as the code has it. On an initialised mutex that is not null, \<^verbatim>\<open>mtx_trylock\<close>
  returns success exactly when the kernel's try-lock of its kind reports that it acquired
  the lock at once; when it did not, the result is \<^verbatim>\<open>thrd_error\<close>, the value
  returned for a null mutex too.
\<close>

theorem trylock_result:
  assumes "type m = mtx_plain \<or> type m = mtx_recursive"
  shows "fst (mtx_trylock (Some m) w) =
           (if granted w (calls w @ [if type m = mtx_plain then MutexTryLock (storage m)
                                     else RmutexTryLock (storage m)])
            then thrd_success else thrd_error)
       \<and> fst (mtx_trylock None w) = thrd_error"
  using assms by (auto simp: mtx_trylock_def probe_def mtx_plain_def mtx_recursive_def)

theorem trylock_result_witness:
  "fst (mtx_trylock (Some \<lparr>type = 1, storage = 2\<rparr>) contended) = thrd_error
   \<and> fst (mtx_trylock (Some \<lparr>type = 2, storage = 2\<rparr>) calm) = thrd_success"
  using trylock_result [of "\<lparr>type = 1, storage = 2\<rparr>" contended]
    trylock_result [of "\<lparr>type = 2, storage = 2\<rparr>" calm]
  by (simp add: mtx_plain_def mtx_recursive_def contended_def calm_def)

text \<open>
  C2 as the spec states it fails: a try-lock of a plain mutex that another thread holds
  returns the value that a try-lock of a null mutex returns.
\<close>

theorem trylock_busy_counterexample:
  "fst (mtx_trylock (Some \<lparr>type = mtx_plain, storage = 2\<rparr>) contended)
     = fst (mtx_trylock None contended)"
  by (simp add: mtx_trylock_def probe_def contended_def calm_def)

text \<open>
  C10. On a mutex that is not null and whose tag is neither plain nor recursive,
  \<^verbatim>\<open>mtx_lock\<close> and \<^verbatim>\<open>mtx_unlock\<close> return success and \<^verbatim>\<open>mtx_trylock\<close>
  returns the error, each without a call to the kernel.
\<close>

theorem mtx_stale_tag:
  assumes "type m \<noteq> mtx_plain" and "type m \<noteq> mtx_recursive"
  shows "mtx_lock (Some m) w = (thrd_success, w)
       \<and> mtx_unlock (Some m) w = (thrd_success, w)
       \<and> mtx_trylock (Some m) w = (thrd_error, w)"
  using assms by (simp add: mtx_lock_def mtx_unlock_def mtx_trylock_def)

theorem mtx_stale_tag_witness:
  "mtx_lock (Some \<lparr>type = 0, storage = 4\<rparr>) calm = (thrd_success, calm)
   \<and> mtx_unlock (Some \<lparr>type = 0, storage = 4\<rparr>) calm = (thrd_success, calm)
   \<and> mtx_trylock (Some \<lparr>type = 0, storage = 4\<rparr>) calm = (thrd_error, calm)"
  using mtx_stale_tag [of "\<lparr>type = 0, storage = 4\<rparr>" calm]
  by (simp add: mtx_plain_def mtx_recursive_def)

subsection \<open>Threads\<close>

text \<open>
  C9. With a null duration \<^verbatim>\<open>thrd_sleep\<close> returns a negative number, \<open>- 1\<close>, makes
  no call and leaves \<^verbatim>\<open>remaining\<close> alone. Otherwise it returns 0 after one call
  to the kernel's sleep, for the seconds times \<open>10 ^ 9\<close> plus the nanoseconds of the
  duration, in 64-bit arithmetic; and a \<^verbatim>\<open>remaining\<close> that is not null has both of
  its fields set to zero.
\<close>

theorem thrd_sleep_result:
  "fst (fst (thrd_sleep None remaining w)) < 0
   \<and> thrd_sleep None remaining w = ((- 1, remaining), w)
   \<and> fst (fst (thrd_sleep (Some d) remaining w)) = 0
   \<and> calls (snd (thrd_sleep (Some d) remaining w)) = calls w @ [SvcSleepThread (impl_timespec2nsec d)]
   \<and> unat (impl_timespec2nsec d) = (unat (tv_sec d) * 1000000000 + unat (tv_nsec d)) mod 2 ^ 64
   \<and> snd (fst (thrd_sleep (Some d) (Some r) w)) = Some \<lparr>tv_sec = 0, tv_nsec = 0\<rparr>
   \<and> snd (fst (thrd_sleep (Some d) None w)) = None"
  by (simp add: thrd_sleep_def impl_timespec2nsec_def Let_def unat_word_ariths mod_simps)

text \<open>A sleep of two and a half seconds, with the remaining time asked for.\<close>

theorem thrd_sleep_result_witness:
  "calls (snd (thrd_sleep (Some \<lparr>tv_sec = 2, tv_nsec = 500000000\<rparr>)
                 (Some \<lparr>tv_sec = 7, tv_nsec = 7\<rparr>) calm)) = [SvcSleepThread 2500000000]
   \<and> fst (thrd_sleep (Some \<lparr>tv_sec = 2, tv_nsec = 500000000\<rparr>)
            (Some \<lparr>tv_sec = 7, tv_nsec = 7\<rparr>) calm) = (0, Some \<lparr>tv_sec = 0, tv_nsec = 0\<rparr>)
   \<and> thrd_sleep None (Some \<lparr>tv_sec = 7, tv_nsec = 7\<rparr>) calm
       = ((- 1, Some \<lparr>tv_sec = 7, tv_nsec = 7\<rparr>), calm)"
  using thrd_sleep_result [of "Some \<lparr>tv_sec = 7, tv_nsec = 7\<rparr>" calm
      "\<lparr>tv_sec = 2, tv_nsec = 500000000\<rparr>" "\<lparr>tv_sec = 7, tv_nsec = 7\<rparr>"]
  by (simp add: impl_timespec2nsec_def calm_def prod_eq_iff)

text \<open>
  C8, as the code has it. On a handle that is allocated, \<^verbatim>\<open>thrd_join\<close> waits for
  the exit of the thread. When the wait fails it returns the error and does nothing else.
  Otherwise it stores the return code of the thread through \<^verbatim>\<open>res\<close> when that is
  not null, closes the kernel thread object and frees the handle, and it returns success
  when the close succeeded and the error when the close failed.
\<close>

theorem thrd_join_result:
  assumes "heap w t = Some obj"
  shows "\<exists>code res' w'. thrd_join t res w = Some ((code, res'), w')
     \<and> (if R_FAILED (answer w (calls w @ [ThreadWaitForExit (thr obj)]))
        then code = thrd_error \<and> res' = res \<and> heap w' = heap w
           \<and> calls w' = calls w @ [ThreadWaitForExit (thr obj)]
        else res' = (case res of None \<Rightarrow> None | Some old \<Rightarrow> Some (rc obj))
           \<and> calls w' = calls w @ [ThreadWaitForExit (thr obj), ThreadClose (thr obj)]
           \<and> heap w' = (heap w)(t := None)
           \<and> code = (if R_SUCCEEDED (answer w (calls w @
                           [ThreadWaitForExit (thr obj), ThreadClose (thr obj)]))
                     then thrd_success else thrd_error))"
  using assms by (auto simp: thrd_join_def ask_def tell_def free_def Let_def split: option.splits)

theorem thrd_join_result_witness:
  "\<exists>w'. thrd_join 8 (Some 0) close_fails = Some ((thrd_error, Some 42), w')
     \<and> calls w' = [ThreadWaitForExit 3, ThreadClose 3] \<and> heap w' = Map.empty"
  using thrd_join_result [of close_fails 8 "\<lparr>thr = 3, rc = 42\<rparr>" "Some 0"]
  by (simp add: close_fails_def calm_def R_FAILED_def R_SUCCEEDED_def)

text \<open>
  C8 as the spec states it fails: the wait for the exit succeeds, and the join returns
  the error all the same, because the close of the kernel object failed.
\<close>

theorem thrd_join_close_counterexample:
  "R_SUCCEEDED (answer close_fails [ThreadWaitForExit 3])
   \<and> fst (fst (the (thrd_join 8 (Some 0) close_fails))) = thrd_error"
  by (simp add: thrd_join_def ask_def tell_def free_def close_fails_def calm_def
        R_FAILED_def R_SUCCEEDED_def)

subsection \<open>The once guard\<close>

text \<open>The wait loop adds waits only, and leaves the mutex and the condition variable of the flag.\<close>

lemma wait_loop_calls:
  "\<exists>tr. calls (snd (outcome (wait_while_running n flag w))) = calls w @ tr \<and> list_all is_wait tr
        \<and> mutex (fst (outcome (wait_while_running n flag w))) = mutex flag
        \<and> cond (fst (outcome (wait_while_running n flag w))) = cond flag"
proof (induction n arbitrary: flag w)
  case 0
  then show ?case by simp
next
  case (Suc n)
  show ?case
  proof (cases "status flag = 1")
    case False
    then show ?thesis by simp
  next
    case True
    obtain r w' where cw: "cnd_wait (Some (cond flag)) (Some (mutex flag)) w = (r, w')"
      by (cases "cnd_wait (Some (cond flag)) (Some (mutex flag)) w")
    then obtain t0 where t0: "calls w' = calls w @ t0" "list_all is_wait t0"
      by (auto simp: cnd_wait_def static_cnd_timedwait_def ask_def is_wait_def split: if_splits)
    let ?next = "wait_while_running n (flag\<lparr>status := peer_status w' (calls w')\<rparr>) w'"
    from Suc.IH [of "flag\<lparr>status := peer_status w' (calls w')\<rparr>" w']
    obtain tr where "calls (snd (outcome ?next)) = calls w' @ tr" "list_all is_wait tr"
      "mutex (fst (outcome ?next)) = mutex flag" "cond (fst (outcome ?next)) = cond flag"
      by auto
    with True cw t0 show ?thesis by (auto intro!: exI [of _ "t0 @ tr"])
  qed
qed

lemma waits_unlocked:
  "list_all is_wait tr \<Longrightarrow> unlocked_calls k h (tr @ es) = unlocked_calls k h es"
  by (induction tr arbitrary: h) (auto simp: is_wait_def acquires_def split: event.splits)

lemma waits_locked:
  "list_all is_wait tr \<Longrightarrow> locked_stores k h (tr @ es) = locked_stores k h es"
  by (induction tr arbitrary: h) (auto simp: is_wait_def acquires_def split: event.splits)

lemma steps_append: "steps (a @ b) = steps a @ steps b"
  by (simp add: steps_def)

lemma stores_append: "stores (a @ b) = stores a @ stores b"
  by (simp add: stores_def)

lemma waits_steps: "list_all is_wait tr \<Longrightarrow> steps tr = []"
  by (induction tr) (auto simp: is_wait_def steps_def split: event.splits)

lemma waits_stores: "list_all is_wait tr \<Longrightarrow> stores tr = []"
  by (induction tr) (auto simp: is_wait_def stores_def split: event.splits)

text \<open>The caller that finds the status 0 runs the initialiser; its calls are these.\<close>

lemma call_once_first:
  assumes "status flag = 0"
  shows "calls (snd (outcome (call_once n flag func w))) = calls w @
      (if type (mutex flag) = mtx_plain then
         [MutexLock (storage (mutex flag)), Store_status 1, MutexUnlock (storage (mutex flag)),
          Invoke func, MutexLock (storage (mutex flag)), Store_status 2,
          CondvarWakeAll (cond flag), MutexUnlock (storage (mutex flag))]
       else if type (mutex flag) = mtx_recursive then
         [RmutexLock (storage (mutex flag)), Store_status 1, RmutexUnlock (storage (mutex flag)),
          Invoke func, RmutexLock (storage (mutex flag)), Store_status 2,
          CondvarWakeAll (cond flag), RmutexUnlock (storage (mutex flag))]
       else [Store_status 1, Invoke func, Store_status 2, CondvarWakeAll (cond flag)])"
  using assms
  by (simp add: call_once_def Let_def mtx_lock_def mtx_unlock_def cnd_broadcast_def ask_def
        tell_def)

lemma call_once_first_status:
  assumes "status flag = 0"
  shows "status (fst (outcome (call_once n flag func w))) = 2"
  using assms by (simp add: call_once_def Let_def)

text \<open>Every other caller locks, waits some number of times, and unlocks if it leaves the loop.\<close>

lemma call_once_later:
  assumes "status flag \<noteq> 0"
  shows "\<exists>tr fin. list_all is_wait tr
     \<and> calls (snd (outcome (call_once n flag func w))) =
         calls (snd (mtx_lock (Some (mutex flag)) w)) @ tr @ fin
     \<and> (fin = [] \<or> fin = [MutexUnlock (storage (mutex flag))]
          \<or> fin = [RmutexUnlock (storage (mutex flag))])"
proof -
  let ?w1 = "snd (mtx_lock (Some (mutex flag)) w)"
  let ?fin = "if type (mutex flag) = mtx_plain then [MutexUnlock (storage (mutex flag))]
     else if type (mutex flag) = mtx_recursive then [RmutexUnlock (storage (mutex flag))]
     else []"
  obtain tr where tr: "calls (snd (outcome (wait_while_running n flag ?w1))) = calls ?w1 @ tr"
    "list_all is_wait tr"
    "mutex (fst (outcome (wait_while_running n flag ?w1))) = mutex flag"
    using wait_loop_calls [of n flag ?w1] by auto
  show ?thesis
  proof (cases "wait_while_running n flag ?w1")
    case (Blocked x)
    with assms tr show ?thesis
      by (intro exI [of _ tr] exI [of _ "[]"]) (simp add: call_once_def Let_def)
  next
    case (Returned x)
    obtain flag' w' where x: "x = (flag', w')" by (cases x)
    with Returned tr have "calls w' = calls ?w1 @ tr" "mutex flag' = mutex flag" by auto
    then have "calls (snd (mtx_unlock (Some (mutex flag')) w')) = calls ?w1 @ tr @ ?fin"
      by (simp add: mtx_unlock_def)
    with assms Returned x
    have "calls (snd (outcome (call_once n flag func w))) = calls ?w1 @ tr @ ?fin"
      by (simp add: call_once_def Let_def)
    with tr(2) show ?thesis
      by (intro exI [of _ tr] exI [of _ ?fin]) simp
  qed
qed

text \<open>
  C5. Take any run of \<^verbatim>\<open>call_once\<close>, finished or still in its wait loop, and the
  calls it has added. When the status it found is 0, it stores 1 and then 2 to the status,
  and when it found another status it stores nothing: the status moves along 0, 1, 2 and
  never back. The protected function is invoked only by the caller that found 0, once,
  between the two stores, and at that point the caller holds the mutex of the flag no
  time: it was released before. On an initialised mutex both stores and the broadcast are
  made while the mutex is held, so it is taken again after the function has returned and
  before the status becomes 2 and the waiters are woken. The run of the caller that found
  0 ends with the status 2.
\<close>

theorem call_once_protocol:
  "\<exists>tr. calls (snd (outcome (call_once n flag func w))) = calls w @ tr
     \<and> steps tr = (if status flag = 0
                   then [Store_status 1, Invoke func, Store_status 2, CondvarWakeAll (cond flag)]
                   else [])
     \<and> forward (status flag # stores tr)
     \<and> unlocked_calls (storage (mutex flag)) 0 tr
     \<and> (type (mutex flag) = mtx_plain \<or> type (mutex flag) = mtx_recursive
          \<longrightarrow> locked_stores (storage (mutex flag)) 0 tr)
     \<and> (status flag = 0 \<longrightarrow> status (fst (outcome (call_once n flag func w))) = 2)"
proof (cases "status flag = 0")
  case True
  show ?thesis
    unfolding call_once_first [OF True] call_once_first_status [OF True]
    using True
    by (simp add: steps_def stores_def acquires_def mtx_plain_def mtx_recursive_def)
next
  case False
  from call_once_later [OF False, of n func w]
  obtain tr fin where tr: "list_all is_wait tr"
    "calls (snd (outcome (call_once n flag func w))) =
       calls (snd (mtx_lock (Some (mutex flag)) w)) @ tr @ fin"
    "fin = [] \<or> fin = [MutexUnlock (storage (mutex flag))]
       \<or> fin = [RmutexUnlock (storage (mutex flag))]"
    by blast
  define pre where "pre =
    (if type (mutex flag) = mtx_plain then [MutexLock (storage (mutex flag))]
     else if type (mutex flag) = mtx_recursive then [RmutexLock (storage (mutex flag))]
     else [])"
  have pre: "calls (snd (mtx_lock (Some (mutex flag)) w)) = calls w @ pre"
    "pre = [] \<or> pre = [MutexLock (storage (mutex flag))]
       \<or> pre = [RmutexLock (storage (mutex flag))]"
    by (simp_all add: mtx_lock_def pre_def)
  have "calls (snd (outcome (call_once n flag func w))) = calls w @ (pre @ tr @ fin)"
    using tr(2) pre(1) by simp
  moreover have "steps pre = []" "steps fin = []" "stores pre = []" "stores fin = []"
    using pre(2) tr(3) by (auto simp: steps_def stores_def)
  then have "steps (pre @ tr @ fin) = []" "stores (pre @ tr @ fin) = []"
    using tr(1) by (simp_all add: steps_append stores_append waits_steps waits_stores)
  moreover have "unlocked_calls (storage (mutex flag)) 0 (pre @ tr @ fin)"
    using pre(2) tr(1,3)
    by (auto simp: waits_unlocked waits_unlocked [where es = "[]", simplified])
  moreover have "locked_stores (storage (mutex flag)) 0 (pre @ tr @ fin)"
    using pre(2) tr(1,3)
    by (auto simp: waits_locked waits_locked [where es = "[]", simplified])
  ultimately show ?thesis using False by auto
qed

text \<open>
  The first caller of a flag with a plain mutex, and a caller that finds the initialiser
  running and the flag done after one wait.
\<close>

theorem call_once_protocol_witness:
  "(\<exists>tr. calls (snd (outcome (call_once 3
             \<lparr>status = 0, mutex = \<lparr>type = 1, storage = 5\<rparr>, cond = 6\<rparr> 9 calm))) = tr
      \<and> steps tr = [Store_status 1, Invoke 9, Store_status 2, CondvarWakeAll 6]
      \<and> forward (0 # stores tr) \<and> unlocked_calls 5 0 tr \<and> locked_stores 5 0 tr)
   \<and> status (fst (outcome (call_once 3
             \<lparr>status = 0, mutex = \<lparr>type = 1, storage = 5\<rparr>, cond = 6\<rparr> 9 calm))) = 2
   \<and> (\<exists>tr. calls (snd (outcome (call_once 3
             \<lparr>status = 1, mutex = \<lparr>type = 1, storage = 5\<rparr>, cond = 6\<rparr> 9 calm))) = tr
      \<and> steps tr = [] \<and> forward (1 # stores tr) \<and> unlocked_calls 5 0 tr
      \<and> locked_stores 5 0 tr)"
  using call_once_protocol [of 3 "\<lparr>status = 0, mutex = \<lparr>type = 1, storage = 5\<rparr>, cond = 6\<rparr>" 9 calm]
    call_once_protocol [of 3 "\<lparr>status = 1, mutex = \<lparr>type = 1, storage = 5\<rparr>, cond = 6\<rparr>" 9 calm]
  by (simp add: mtx_plain_def calm_def)

end
